theory Spec2Isabelle
  imports Complex_Main
begin

section \<open>The host platform as the canvas wrapper sees it\<close>

text \<open>
  The repository holds two implementations of the same wrapper class \<open>Canvas\<close>:
  the ES6 class of \<^verbatim>\<open>src/lib/index.js\<close> (definitions with the suffix \<open>_class\<close>) and
  the constructor function with a prototype of \<^verbatim>\<open>src/unnamed/part_000\<close> (suffix
  \<open>_proto\<close>). Methods whose bodies are the same in both files are defined once.

  The code never computes with the numbers it is given, it only hands them on, so a
  JavaScript number is a \<open>real\<close>. A style (colour, gradient or pattern) is an opaque
  value that is stored and read back, a \<open>string\<close> here.
\<close>

type_synonym number = real
type_synonym style = string

text \<open>
  An argument of a JavaScript call may be left out (\<open>undefined\<close>), be \<open>null\<close>, or be a
  value. Boolean parameters are \<open>bool option\<close>, \<open>None\<close> standing for \<open>undefined\<close>.
\<close>

datatype 'a arg = Undefined | Null | Given 'a

datatype error = TypeError

text \<open>
  Every operation the wrapper performs on the host (document, window, canvas element and
  its 2D context), in the order of the source. Property writes are operations too.
\<close>

datatype call =
    CreateElement
  | AppendChild
  | GetContext
  | SetDisplay string
  | SetWidth number
  | SetHeight number
  | AddResizeListener
  | SetFillStyle style
  | SetStrokeStyle style
  | FillRect number number number number
  | ClearRect number number number number
  | BeginPath
  | MoveTo number number
  | LineTo number number
  | Arc number number number number number bool
  | ClosePath
  | Stroke
  | Fill
  | Save
  | Restore

text \<open>
  The canvas element together with its 2D context, as a store of the properties the
  wrapper reads and writes: \<open>canvas.width\<close>, \<open>canvas.height\<close>, \<open>canvas.style.display\<close>,
  \<open>context.fillStyle\<close> and \<open>context.strokeStyle\<close>. \<open>el_width\<close> and \<open>el_height\<close> are the
  backing dimensions, that is what reading \<open>canvas.width\<close> and \<open>canvas.height\<close> returns;
  an assignment to them goes through \<open>set_dimension\<close> below. The other properties hold
  what was assigned to them last.
\<close>

record element =
  el_width :: number
  el_height :: number
  el_display :: string
  ctx_fillStyle :: style
  ctx_strokeStyle :: style

text \<open>
  A length in pixels that the platform itself reports: \<open>window.innerWidth\<close> and
  \<open>window.innerHeight\<close> are integers of type \<open>long\<close> and are never negative, so they
  lie between 0 and 2147483647. \<open>px\<close> is such a length as a JavaScript number, and
  \<open>pixels_of\<close> makes one from a natural number (capped at the largest).
\<close>

typedef pixels = "{n :: nat. n \<le> 2147483647}"
  by (rule exI [of _ 0]) simp

definition px :: "pixels \<Rightarrow> number" where
  "px p = real (Rep_pixels p)"

definition pixels_of :: "nat \<Rightarrow> pixels" where
  "pixels_of n = Abs_pixels (min n 2147483647)"

text \<open>
  The window: the viewport dimensions and whether the wrapper's bound
  \<open>onWindowResizeHandler\<close> is registered for the \<open>resize\<close> event (registering the same
  function twice registers it once).
\<close>

record window =
  innerWidth :: pixels
  innerHeight :: pixels
  resizeListener :: bool

text \<open>
  The state: the host (\<open>window\<close>, the canvas element, the operations issued so far) and
  the fields of the \<open>Canvas\<close> object. \<open>this.canvas\<close> and \<open>this.context\<close> both refer to the
  one element \<open>canvas\<close>. The fields \<open>width\<close> and \<open>height\<close> exist in
  \<^verbatim>\<open>src/unnamed/part_000\<close> only (lines 60 and 67); the class of \<^verbatim>\<open>src/lib/index.js\<close>
  declares \<open>canvas\<close>, \<open>context\<close>, \<open>fullWindow\<close> and \<open>pathStarted\<close> and never assigns
  \<open>this.width\<close> or \<open>this.height\<close>, so there the properties are absent, which is \<open>None\<close>.
\<close>

record state =
  window :: window
  canvas :: element
  trace :: "call list"
  fullWindow :: bool
  pathStarted :: bool
  width :: "number option"
  height :: "number option"

text \<open>
  \<open>document.createElement("canvas")\<close>: a canvas element in its default state, 300 by 150
  pixels, not displayed specially, both styles black.
\<close>

definition createElement :: element where
  "createElement =
     \<lparr>el_width = 300, el_height = 150, el_display = [],
      ctx_fillStyle = ''#000000'', ctx_strokeStyle = ''#000000''\<rparr>"

text \<open>
  An assignment to \<open>canvas.width\<close> or \<open>canvas.height\<close>. The attribute is an
  \<open>unsigned long\<close>: the assigned number is truncated toward zero and reduced modulo
  \<open>2^32\<close>, and the element takes the result if it is at most 2147483647 and the
  attribute's default (300 for the width, 150 for the height) otherwise. So \<open>-5\<close> gives
  the default, \<open>2^32 + 5\<close> gives 5 and \<open>640.5\<close> gives 640. A number is a valid dimension
  when the assignment keeps it: an integer from 0 to 2147483647.
\<close>

definition to_unsigned_long :: "number \<Rightarrow> int" where
  "to_unsigned_long v = (if v < 0 then \<lceil>v\<rceil> else \<lfloor>v\<rfloor>) mod 4294967296"

definition set_dimension :: "number \<Rightarrow> number \<Rightarrow> number" where
  "set_dimension dflt v =
     (let n = to_unsigned_long v in if n \<le> 2147483647 then of_int n else dflt)"

definition valid_dimension :: "number \<Rightarrow> bool" where
  "valid_dimension v = (of_int \<lfloor>v\<rfloor> = v \<and> 0 \<le> v \<and> v \<le> 2147483647)"

text \<open>Operations on the host are appended to the trace in the order they are issued.\<close>

definition issue :: "call list \<Rightarrow> state \<Rightarrow> state" where
  "issue cs s = s\<lparr>trace := trace s @ cs\<rparr>"

section \<open>Methods that are the same in both files\<close>

text \<open>\<open>fillStyle(style)\<close>: index.js 76-78, part_000 144-146.\<close>

definition fillStyle :: "style \<Rightarrow> state \<Rightarrow> state" where
  "fillStyle st s =
     issue [SetFillStyle st] (s\<lparr>canvas := (canvas s)\<lparr>ctx_fillStyle := st\<rparr>\<rparr>)"

text \<open>\<open>strokeStyle(style)\<close>: index.js 86-88, part_000 154-156.\<close>

definition strokeStyle :: "style \<Rightarrow> state \<Rightarrow> state" where
  "strokeStyle st s =
     issue [SetStrokeStyle st] (s\<lparr>canvas := (canvas s)\<lparr>ctx_strokeStyle := st\<rparr>\<rparr>)"

text \<open>\<open>rect(x, y, width, height)\<close>: index.js 98-100, part_000 167-169.\<close>

definition rect :: "number \<Rightarrow> number \<Rightarrow> number \<Rightarrow> number \<Rightarrow> state \<Rightarrow> state" where
  "rect x y w h s = issue [FillRect x y w h] s"

text \<open>
  \<open>arc(x, y, radius, startAngle, endAngle, anticlockwise, addToPath)\<close>: index.js 114-117
  (default parameters), part_000 187-192 (tests against \<open>undefined\<close>). Both flags are
  \<open>false\<close> when left out.
\<close>

definition arc ::
  "number \<Rightarrow> number \<Rightarrow> number \<Rightarrow> number \<Rightarrow> number \<Rightarrow> bool option \<Rightarrow> bool option
     \<Rightarrow> state \<Rightarrow> state" where
  "arc x y radius startAngle endAngle anticlockwise addToPath s =
     (let anticlockwise' = (case anticlockwise of None \<Rightarrow> False | Some b \<Rightarrow> b);
          addToPath' = (case addToPath of None \<Rightarrow> False | Some b \<Rightarrow> b);
          s1 = (if \<not> addToPath' then issue [BeginPath] s else s)
      in issue [Arc x y radius startAngle endAngle anticlockwise'] s1)"

text \<open>\<open>addPoint(x, y)\<close>: index.js 125-133, part_000 200-208.\<close>

definition addPoint :: "number \<Rightarrow> number \<Rightarrow> state \<Rightarrow> state" where
  "addPoint x y s =
     (if \<not> pathStarted s
      then (issue [MoveTo x y] (issue [BeginPath] s))\<lparr>pathStarted := True\<rparr>
      else issue [LineTo x y] s)"

text \<open>\<open>stroke(closed)\<close>: index.js 141-145, part_000 217-222.\<close>

definition stroke :: "bool option \<Rightarrow> state \<Rightarrow> state" where
  "stroke closed' s =
     (let c = (case closed' of None \<Rightarrow> False | Some b \<Rightarrow> b);
          s1 = (if c then issue [ClosePath] s else s)
      in (issue [Stroke] s1)\<lparr>pathStarted := False\<rparr>)"

text \<open>\<open>fill(closed)\<close>: index.js 153-157, part_000 231-236.\<close>

definition fill :: "bool option \<Rightarrow> state \<Rightarrow> state" where
  "fill closed' s =
     (let c = (case closed' of None \<Rightarrow> False | Some b \<Rightarrow> b);
          s1 = (if c then issue [ClosePath] s else s)
      in (issue [Fill] s1)\<lparr>pathStarted := False\<rparr>)"

text \<open>\<open>save()\<close> and \<open>restore()\<close>: index.js 163-173, part_000 243-254.\<close>

definition save :: "state \<Rightarrow> state" where
  "save s = issue [Save] s"

definition restore :: "state \<Rightarrow> state" where
  "restore s = issue [Restore] s"

text \<open>\<open>clearAll()\<close>: index.js 179-181, part_000 260-262.\<close>

definition clearAll :: "state \<Rightarrow> state" where
  "clearAll s = issue [ClearRect 0 0 (el_width (canvas s)) (el_height (canvas s))] s"

section \<open>The class of src/lib/index.js\<close>

text \<open>\<open>setSize(width, height)\<close>, index.js 196-199: the element only.\<close>

definition setSize_class :: "number \<Rightarrow> number \<Rightarrow> state \<Rightarrow> state" where
  "setSize_class w h s =
     issue [SetWidth w, SetHeight h]
       (s\<lparr>canvas := (canvas s)\<lparr>el_width := set_dimension 300 w,
                                el_height := set_dimension 150 h\<rparr>\<rparr>)"

text \<open>\<open>onWindowResizeHandler()\<close>, index.js 186-188.\<close>

definition onWindowResizeHandler_class :: "state \<Rightarrow> state" where
  "onWindowResizeHandler_class s =
     setSize_class (px (innerWidth (window s))) (px (innerHeight (window s))) s"

text \<open>
  \<open>init()\<close>, index.js 55-63. The executor of the promise runs at once, inside the call,
  and resolves; the model is the state the call leaves.
\<close>

definition init_class :: "state \<Rightarrow> state" where
  "init_class s =
     (if fullWindow s
      then (let s1 = setSize_class (px (innerWidth (window s))) (px (innerHeight (window s))) s
            in issue [AddResizeListener] (s1\<lparr>window := (window s1)\<lparr>resizeListener := True\<rparr>\<rparr>))
      else s)"

text \<open>
  \<open>new Canvas(canvasElement, fullWindow)\<close>, index.js 40-50. The default of
  \<open>canvasElement\<close> is \<open>null\<close>, and every falsy value is replaced by a new element that is
  appended to the body. The constructor is given the window it runs in.
\<close>

definition Canvas_class :: "window \<Rightarrow> element arg \<Rightarrow> bool option \<Rightarrow> state" where
  "Canvas_class win canvasElement fullWindow' =
     (let fw = (case fullWindow' of None \<Rightarrow> True | Some b \<Rightarrow> b);
          (e, t) = (case canvasElement of
                      Given e0 \<Rightarrow> (e0, [])
                    | _ \<Rightarrow> (createElement, [CreateElement, AppendChild]))
      in \<lparr>window = win, canvas = e, trace = t @ [GetContext],
          fullWindow = fw, pathStarted = False, width = None, height = None\<rparr>)"

section \<open>The constructor function and prototype of src/unnamed/part_000\<close>

text \<open>\<open>setSize(width, height)\<close>, part_000 277-282: the element and the two fields.\<close>

definition setSize_proto :: "number \<Rightarrow> number \<Rightarrow> state \<Rightarrow> state" where
  "setSize_proto w h s =
     (issue [SetWidth w, SetHeight h]
        (s\<lparr>canvas := (canvas s)\<lparr>el_width := set_dimension 300 w,
                                 el_height := set_dimension 150 h\<rparr>\<rparr>))
       \<lparr>width := Some w, height := Some h\<rparr>"

text \<open>\<open>onWindowResizeHandler()\<close>, part_000 267-269.\<close>

definition onWindowResizeHandler_proto :: "state \<Rightarrow> state" where
  "onWindowResizeHandler_proto s =
     setSize_proto (px (innerWidth (window s))) (px (innerHeight (window s))) s"

text \<open>\<open>init()\<close>, part_000 100-112; the promise as in the class.\<close>

definition init_proto :: "state \<Rightarrow> state" where
  "init_proto s =
     (if fullWindow s
      then (let s1 = issue [SetDisplay ''block'']
                       (s\<lparr>canvas := (canvas s)\<lparr>el_display := ''block''\<rparr>\<rparr>);
                s2 = setSize_proto (px (innerWidth (window s1))) (px (innerHeight (window s1))) s1
            in issue [AddResizeListener] (s2\<lparr>window := (window s2)\<lparr>resizeListener := True\<rparr>\<rparr>))
      else s\<lparr>width := Some (el_width (canvas s)), height := Some (el_height (canvas s))\<rparr>)"

text \<open>\<open>background(color)\<close>, part_000 127-136.\<close>

definition background :: "style option \<Rightarrow> state \<Rightarrow> state" where
  "background color s =
     (case color of
        None \<Rightarrow> issue [FillRect 0 0 (el_width (canvas s)) (el_height (canvas s))] s
      | Some c \<Rightarrow>
          (let fillstyle = ctx_fillStyle (canvas s);
               s1 = fillStyle c s;
               s2 = issue [FillRect 0 0 (el_width (canvas s1)) (el_height (canvas s1))] s1
           in fillStyle fillstyle s2))"

text \<open>
  \<open>Canvas(canvasElement, fullWindow, autoInit)\<close>, part_000 25-92. \<open>isNew\<close> tells whether
  the function is called with \<open>new\<close>: without it, line 27 evaluates
  \<open>new Canvas.apply(null, arguments)\<close>, and \<open>Function.prototype.apply\<close> is not a
  constructor. Only \<open>undefined\<close> is replaced by a new element (line 70), so with \<open>null\<close>
  line 84 calls \<open>getContext\<close> on \<open>null\<close>. Both throws happen before any operation on the
  host. \<open>fullWindow\<close> and \<open>autoInit\<close> are \<open>true\<close> when left out, and \<open>autoInit\<close> makes the
  constructor end with \<open>this.init()\<close>.
\<close>

definition Canvas_proto ::
  "bool \<Rightarrow> window \<Rightarrow> element arg \<Rightarrow> bool option \<Rightarrow> bool option \<Rightarrow> error + state" where
  "Canvas_proto isNew win canvasElement fullWindow' autoInit =
     (if \<not> isNew then Inl TypeError
      else
        (let (canvasElement1, t) =
               (case canvasElement of
                  Undefined \<Rightarrow> (Given createElement, [CreateElement, AppendChild])
                | _ \<Rightarrow> (canvasElement, []));
             fw = (case fullWindow' of None \<Rightarrow> True | Some b \<Rightarrow> b);
             ai = (case autoInit of None \<Rightarrow> True | Some b \<Rightarrow> b)
         in (case canvasElement1 of
               Given e \<Rightarrow>
                 (let s = \<lparr>window = win, canvas = e, trace = t @ [GetContext],
                           fullWindow = fw, pathStarted = False,
                           width = Some 0, height = Some 0\<rparr>
                  in Inr (if ai then init_proto s else s))
             | _ \<Rightarrow> Inl TypeError)))"

section \<open>What the host does\<close>

text \<open>
  A resize of the viewport to \<open>w\<close> by \<open>h\<close>: the window takes the new dimensions and, if
  the handler is registered, calls it.
\<close>

definition resize_event_class :: "pixels \<Rightarrow> pixels \<Rightarrow> state \<Rightarrow> state" where
  "resize_event_class w h s =
     (let s1 = s\<lparr>window := (window s)\<lparr>innerWidth := w, innerHeight := h\<rparr>\<rparr>
      in if resizeListener (window s1) then onWindowResizeHandler_class s1 else s1)"

definition resize_event_proto :: "pixels \<Rightarrow> pixels \<Rightarrow> state \<Rightarrow> state" where
  "resize_event_proto w h s =
     (let s1 = s\<lparr>window := (window s)\<lparr>innerWidth := w, innerHeight := h\<rparr>\<rparr>
      in if resizeListener (window s1) then onWindowResizeHandler_proto s1 else s1)"

text \<open>
  The current path of the drawing surface after a sequence of operations, by the contract
  the specification gives for the surface: beginning a path empties it, resizing the
  backing store resets it, and moving, drawing a line, drawing an arc and closing extend
  it. Stroking and filling draw the path and leave it as it is.
\<close>

fun surface_step :: "call list \<Rightarrow> call \<Rightarrow> call list" where
  "surface_step p BeginPath = []"
| "surface_step p (SetWidth w) = []"
| "surface_step p (SetHeight h) = []"
| "surface_step p (MoveTo x y) = p @ [MoveTo x y]"
| "surface_step p (LineTo x y) = p @ [LineTo x y]"
| "surface_step p (Arc x y r a b c) = p @ [Arc x y r a b c]"
| "surface_step p ClosePath = p @ [ClosePath]"
| "surface_step p _ = p"

definition current_path :: "call list \<Rightarrow> call list" where
  "current_path t = foldl surface_step [] t"

text \<open>A sequence of \<open>addPoint\<close> calls, in order.\<close>

fun addPoints :: "(number \<times> number) list \<Rightarrow> state \<Rightarrow> state" where
  "addPoints [] s = s"
| "addPoints ((x, y) # ps) s = addPoints ps (addPoint x y s)"

text \<open>A sequence of resize events, in order.\<close>

fun resize_events_proto :: "(pixels \<times> pixels) list \<Rightarrow> state \<Rightarrow> state" where
  "resize_events_proto [] s = s"
| "resize_events_proto ((w, h) # es) s = resize_events_proto es (resize_event_proto w h s)"

fun resize_events_class :: "(pixels \<times> pixels) list \<Rightarrow> state \<Rightarrow> state" where
  "resize_events_class [] s = s"
| "resize_events_class ((w, h) # es) s = resize_events_class es (resize_event_class w h s)"

text \<open>The window of the running example: a viewport of 800 by 600 with no listener yet.\<close>

definition win0 :: window where
  "win0 = \<lparr>innerWidth = pixels_of 800, innerHeight = pixels_of 600,
            resizeListener = False\<rparr>"

section \<open>Helper facts\<close>

lemma foldl_surface_step_lines:
  "foldl surface_step p (map (\<lambda>(a, b). LineTo a b) ps) = p @ map (\<lambda>(a, b). LineTo a b) ps"
  by (induction ps arbitrary: p) (auto)

lemma current_path_append:
  "current_path (t @ u) = foldl surface_step (current_path t) u"
  by (simp add: current_path_def)

lemma addPoints_started:
  "pathStarted s \<Longrightarrow>
     addPoints ps s = s\<lparr>trace := trace s @ map (\<lambda>(a, b). LineTo a b) ps\<rparr>"
proof (induction ps arbitrary: s)
  case Nil
  then show ?case by simp
next
  case (Cons p ps)
  obtain x y where p: "p = (x, y)" by (cases p)
  have st: "pathStarted (addPoint x y s)"
    using Cons.prems by (simp add: addPoint_def issue_def)
  show ?case
    using Cons.IH [OF st] Cons.prems by (simp add: p addPoint_def issue_def)
qed

lemma addPoints_idle:
  "\<not> pathStarted s \<Longrightarrow>
     addPoints ((x, y) # ps) s =
       s\<lparr>trace := trace s @ BeginPath # MoveTo x y # map (\<lambda>(a, b). LineTo a b) ps,
         pathStarted := True\<rparr>"
proof -
  assume idle: "\<not> pathStarted s"
  have st: "pathStarted (addPoint x y s)"
    by (simp add: addPoint_def issue_def)
  show ?thesis
    using addPoints_started [OF st, of ps] idle by (simp add: addPoint_def issue_def)
qed

lemma addPoints_nonempty_started:
  "ps \<noteq> [] \<Longrightarrow> pathStarted (addPoints ps s)"
proof (cases ps)
  case Nil
  assume "ps \<noteq> []"
  with Nil show ?thesis by simp
next
  case (Cons p qs)
  obtain x y where p: "p = (x, y)" by (cases p)
  show ?thesis
  proof (cases "pathStarted s")
    case True
    then show ?thesis by (simp add: addPoints_started)
  next
    case False
    then show ?thesis unfolding Cons p by (simp add: addPoints_idle del: addPoints.simps)
  qed
qed

lemma px_pixels_of: "px (pixels_of n) = real (min n 2147483647)"
  by (simp add: px_def pixels_of_def Abs_pixels_inverse)

lemma px_valid: "valid_dimension (px p)"
proof -
  have "Rep_pixels p \<le> 2147483647"
    using Rep_pixels [of p] by simp
  then show ?thesis
    by (simp add: valid_dimension_def px_def)
qed

lemma set_dimension_valid:
  assumes "valid_dimension v"
  shows "set_dimension d v = v"
proof -
  from assms have int: "of_int \<lfloor>v\<rfloor> = v" and lo: "0 \<le> v" and hi: "v \<le> 2147483647"
    by (simp_all add: valid_dimension_def)
  from lo have flo: "0 \<le> \<lfloor>v\<rfloor>" by simp
  from hi have fhi: "\<lfloor>v\<rfloor> \<le> 2147483647" by linarith
  from flo fhi have "\<lfloor>v\<rfloor> mod 4294967296 = \<lfloor>v\<rfloor>" by simp
  with lo have "to_unsigned_long v = \<lfloor>v\<rfloor>"
    by (simp add: to_unsigned_long_def)
  with fhi int show ?thesis
    by (simp add: set_dimension_def)
qed

lemma set_dimension_px: "set_dimension d (px p) = px p"
  by (rule set_dimension_valid) (rule px_valid)

lemma set_dimension_examples:
  "set_dimension 300 (- 5) = 300"
  "set_dimension 300 4294967301 = 5"
  "set_dimension 300 640.5 = 640"
  "set_dimension 150 480.25 = 480"
  by (simp_all add: set_dimension_def to_unsigned_long_def)

lemma resize_event_proto_registered:
  "resizeListener (window s) \<Longrightarrow>
     resize_event_proto w h s =
       s\<lparr>window := (window s)\<lparr>innerWidth := w, innerHeight := h\<rparr>,
         canvas := (canvas s)\<lparr>el_width := px w, el_height := px h\<rparr>,
         trace := trace s @ [SetWidth (px w), SetHeight (px h)],
         width := Some (px w), height := Some (px h)\<rparr>"
  by (simp add: resize_event_proto_def onWindowResizeHandler_proto_def setSize_proto_def
        issue_def set_dimension_px)

lemma resize_event_class_registered:
  "resizeListener (window s) \<Longrightarrow>
     resize_event_class w h s =
       s\<lparr>window := (window s)\<lparr>innerWidth := w, innerHeight := h\<rparr>,
         canvas := (canvas s)\<lparr>el_width := px w, el_height := px h\<rparr>,
         trace := trace s @ [SetWidth (px w), SetHeight (px h)]\<rparr>"
  by (simp add: resize_event_class_def onWindowResizeHandler_class_def setSize_class_def
        issue_def set_dimension_px)

lemma resize_events_proto_registered:
  "resizeListener (window s) \<Longrightarrow> resizeListener (window (resize_events_proto es s))"
proof (induction es arbitrary: s)
  case Nil
  then show ?case by simp
next
  case (Cons ev es)
  obtain w h where ev: "ev = (w, h)" by (cases ev)
  have "resizeListener (window (resize_event_proto w h s))"
    using Cons.prems by (simp add: resize_event_proto_registered)
  then show ?case using Cons.IH by (simp add: ev)
qed

lemma resize_events_class_registered:
  "resizeListener (window s) \<Longrightarrow> resizeListener (window (resize_events_class es s))"
proof (induction es arbitrary: s)
  case Nil
  then show ?case by simp
next
  case (Cons ev es)
  obtain w h where ev: "ev = (w, h)" by (cases ev)
  have "resizeListener (window (resize_event_class w h s))"
    using Cons.prems by (simp add: resize_event_class_registered)
  then show ?case using Cons.IH by (simp add: ev)
qed

lemma resize_events_proto_snoc:
  "resize_events_proto (es @ [(w, h)]) s = resize_event_proto w h (resize_events_proto es s)"
  by (induction es arbitrary: s) auto

lemma resize_events_class_snoc:
  "resize_events_class (es @ [(w, h)]) s = resize_event_class w h (resize_events_class es s)"
  by (induction es arbitrary: s) auto

lemma init_proto_fullWindow:
  "fullWindow s \<Longrightarrow>
     init_proto s =
       s\<lparr>window := (window s)\<lparr>resizeListener := True\<rparr>,
         canvas := (canvas s)\<lparr>el_width := px (innerWidth (window s)),
                                el_height := px (innerHeight (window s)),
                                el_display := ''block''\<rparr>,
         trace := trace s @ [SetDisplay ''block'', SetWidth (px (innerWidth (window s))),
                             SetHeight (px (innerHeight (window s))), AddResizeListener],
         width := Some (px (innerWidth (window s))),
         height := Some (px (innerHeight (window s)))\<rparr>"
  by (simp add: init_proto_def setSize_proto_def issue_def set_dimension_px)

lemma init_class_fullWindow:
  "fullWindow s \<Longrightarrow>
     init_class s =
       s\<lparr>window := (window s)\<lparr>resizeListener := True\<rparr>,
         canvas := (canvas s)\<lparr>el_width := px (innerWidth (window s)),
                                el_height := px (innerHeight (window s))\<rparr>,
         trace := trace s @ [SetWidth (px (innerWidth (window s))),
                             SetHeight (px (innerHeight (window s))), AddResizeListener]\<rparr>"
  by (simp add: init_class_def setSize_class_def issue_def set_dimension_px)

section \<open>Building a path\<close>

text \<open>
  C1. \<open>addPoint(x, y)\<close> is a machine with two states over \<open>pathStarted\<close>. When the flag is
  false the call begins a new path, moves the pen to \<open>(x, y)\<close> and sets the flag; when the
  flag is true the call draws a line to \<open>(x, y)\<close> and the flag stays true; nothing else
  of the state changes. Hence every non-empty sequence of \<open>addPoint\<close> calls ends with the
  flag true, and the operations it issues, and the path the surface holds, are the
  polyline through the points in the order of the calls: a new one from the idle state, a
  continuation of the path under construction otherwise.
\<close>

theorem addPoint_two_state_machine:
  "(\<not> pathStarted s \<longrightarrow>
      addPoint x y s = s\<lparr>trace := trace s @ [BeginPath, MoveTo x y], pathStarted := True\<rparr>)
   \<and> (pathStarted s \<longrightarrow>
      addPoint x y s = s\<lparr>trace := trace s @ [LineTo x y]\<rparr> \<and> pathStarted (addPoint x y s))
   \<and> (ps \<noteq> [] \<longrightarrow> pathStarted (addPoints ps s))
   \<and> (\<not> pathStarted s \<longrightarrow>
      trace (addPoints ((x, y) # ps) s) =
        trace s @ BeginPath # MoveTo x y # map (\<lambda>(a, b). LineTo a b) ps
      \<and> current_path (trace (addPoints ((x, y) # ps) s)) =
        MoveTo x y # map (\<lambda>(a, b). LineTo a b) ps)
   \<and> (pathStarted s \<longrightarrow>
      trace (addPoints ps s) = trace s @ map (\<lambda>(a, b). LineTo a b) ps
      \<and> current_path (trace (addPoints ps s)) =
        current_path (trace s) @ map (\<lambda>(a, b). LineTo a b) ps)"
proof -
  have a: "\<not> pathStarted s \<longrightarrow>
      addPoint x y s = s\<lparr>trace := trace s @ [BeginPath, MoveTo x y], pathStarted := True\<rparr>"
    by (simp add: addPoint_def issue_def)
  have b: "pathStarted s \<longrightarrow>
      addPoint x y s = s\<lparr>trace := trace s @ [LineTo x y]\<rparr> \<and> pathStarted (addPoint x y s)"
    by (simp add: addPoint_def issue_def)
  have c: "ps \<noteq> [] \<longrightarrow> pathStarted (addPoints ps s)"
    by (simp add: addPoints_nonempty_started)
  have d: "\<not> pathStarted s \<longrightarrow>
      trace (addPoints ((x, y) # ps) s) =
        trace s @ BeginPath # MoveTo x y # map (\<lambda>(a, b). LineTo a b) ps
      \<and> current_path (trace (addPoints ((x, y) # ps) s)) =
        MoveTo x y # map (\<lambda>(a, b). LineTo a b) ps"
    by (simp add: addPoints_idle current_path_append foldl_surface_step_lines
          del: addPoints.simps)
  have e: "pathStarted s \<longrightarrow>
      trace (addPoints ps s) = trace s @ map (\<lambda>(a, b). LineTo a b) ps
      \<and> current_path (trace (addPoints ps s)) =
        current_path (trace s) @ map (\<lambda>(a, b). LineTo a b) ps"
    by (simp add: addPoints_started current_path_append foldl_surface_step_lines)
  from a b c d e show ?thesis by blast
qed

text \<open>
  The three points of \<^verbatim>\<open>src/lib/test.js\<close> on a new canvas, and a fourth point added to the
  path they leave open.
\<close>

theorem addPoint_two_state_machine_witness:
  "\<not> pathStarted (Canvas_class win0 Null (Some True))
   \<and> [(40, 10), (50, 90)] \<noteq> ([] :: (number \<times> number) list)
   \<and> trace (addPoints [(20, 20), (40, 10), (50, 90)] (Canvas_class win0 Null (Some True))) =
       [CreateElement, AppendChild, GetContext,
        BeginPath, MoveTo 20 20, LineTo 40 10, LineTo 50 90]
   \<and> current_path
       (trace (addPoints [(20, 20), (40, 10), (50, 90)] (Canvas_class win0 Null (Some True)))) =
       [MoveTo 20 20, LineTo 40 10, LineTo 50 90]
   \<and> pathStarted (addPoints [(40, 10), (50, 90)] (Canvas_class win0 Null (Some True)))
   \<and> pathStarted (addPoint 20 20 (Canvas_class win0 Null (Some True)))
   \<and> trace (addPoint 60 60 (addPoint 20 20 (Canvas_class win0 Null (Some True)))) =
       [CreateElement, AppendChild, GetContext, BeginPath, MoveTo 20 20, LineTo 60 60]"
  using addPoint_two_state_machine
          [of "Canvas_class win0 Null (Some True)" 20 20 "[(40, 10), (50, 90)]"]
        addPoint_two_state_machine
          [of "addPoint 20 20 (Canvas_class win0 Null (Some True))" 60 60 "[]"]
  by (simp add: Canvas_class_def addPoint_def issue_def current_path_def)

section \<open>Finishing a path\<close>

text \<open>
  C2. For every value of \<open>pathStarted\<close> and every \<open>closed\<close>, \<open>stroke(closed)\<close> and
  \<open>fill(closed)\<close> close the path on the surface when \<open>closed\<close> is true, and only then,
  next issue the surface's stroke or fill, and then set \<open>pathStarted\<close> to false; nothing
  else of the state changes. So the flag is false afterwards whatever it was, and the
  stroke or fill is the last operation issued, also when no path was open.
\<close>

theorem stroke_fill_finalize:
  "stroke closed' s =
     s\<lparr>trace := trace s @ (if closed' = Some True then [ClosePath, Stroke] else [Stroke]),
       pathStarted := False\<rparr>
   \<and> fill closed' s =
     s\<lparr>trace := trace s @ (if closed' = Some True then [ClosePath, Fill] else [Fill]),
       pathStarted := False\<rparr>
   \<and> pathStarted (stroke closed' s) = False
   \<and> pathStarted (fill closed' s) = False
   \<and> last (trace (stroke closed' s)) = Stroke
   \<and> last (trace (fill closed' s)) = Fill"
proof -
  have a: "stroke closed' s =
     s\<lparr>trace := trace s @ (if closed' = Some True then [ClosePath, Stroke] else [Stroke]),
       pathStarted := False\<rparr>"
    by (cases closed') (simp_all add: stroke_def issue_def)
  have b: "fill closed' s =
     s\<lparr>trace := trace s @ (if closed' = Some True then [ClosePath, Fill] else [Fill]),
       pathStarted := False\<rparr>"
    by (cases closed') (simp_all add: fill_def issue_def)
  have c: "pathStarted (stroke closed' s) = False" "last (trace (stroke closed' s)) = Stroke"
    by (simp_all add: a)
  have d: "pathStarted (fill closed' s) = False" "last (trace (fill closed' s)) = Fill"
    by (simp_all add: b)
  from a b c d show ?thesis by blast
qed

text \<open>
  The end of \<^verbatim>\<open>src/lib/test.js\<close>: the triangle is closed and stroked, and the flag is
  false again; a stroke on the new canvas, with no path open, is issued all the same.
\<close>

theorem stroke_fill_finalize_witness:
  "trace (stroke (Some True)
            (addPoints [(20, 20), (40, 10), (50, 90)] (Canvas_class win0 Null (Some True)))) =
     [CreateElement, AppendChild, GetContext,
      BeginPath, MoveTo 20 20, LineTo 40 10, LineTo 50 90, ClosePath, Stroke]
   \<and> \<not> pathStarted (stroke (Some True)
            (addPoints [(20, 20), (40, 10), (50, 90)] (Canvas_class win0 Null (Some True))))
   \<and> \<not> pathStarted (Canvas_class win0 Null (Some True))
   \<and> trace (stroke None (Canvas_class win0 Null (Some True))) =
     [CreateElement, AppendChild, GetContext, Stroke]
   \<and> \<not> pathStarted (stroke None (Canvas_class win0 Null (Some True)))
   \<and> trace (fill (Some False) (Canvas_class win0 Null (Some True))) =
     [CreateElement, AppendChild, GetContext, Fill]"
  using stroke_fill_finalize
          [of "Some True"
              "addPoints [(20, 20), (40, 10), (50, 90)] (Canvas_class win0 Null (Some True))"]
        stroke_fill_finalize [of None "Canvas_class win0 Null (Some True)"]
        stroke_fill_finalize [of "Some False" "Canvas_class win0 Null (Some True)"]
  by (simp add: Canvas_class_def addPoint_def issue_def)

section \<open>Arcs\<close>

text \<open>
  C3. \<open>arc(x, y, radius, startAngle, endAngle, anticlockwise, addToPath)\<close> with
  \<open>addToPath\<close> false or left out begins a new path on the surface and then draws the arc,
  so the surface's path is the arc alone; with \<open>addToPath\<close> true it draws the arc without
  beginning a path, so the arc extends the surface's path. In every case the state is
  changed in its trace only: \<open>pathStarted\<close> keeps its value, also where the path it
  stood for has just been discarded.
\<close>

theorem arc_path_flag_unchanged:
  "(addToPath = None \<or> addToPath = Some False \<longrightarrow>
      arc x y r a b acw addToPath s =
        s\<lparr>trace := trace s @ [BeginPath, Arc x y r a b (acw = Some True)]\<rparr>
      \<and> current_path (trace (arc x y r a b acw addToPath s)) =
        [Arc x y r a b (acw = Some True)])
   \<and> (addToPath = Some True \<longrightarrow>
      arc x y r a b acw addToPath s = s\<lparr>trace := trace s @ [Arc x y r a b (acw = Some True)]\<rparr>
      \<and> current_path (trace (arc x y r a b acw addToPath s)) =
        current_path (trace s) @ [Arc x y r a b (acw = Some True)])
   \<and> pathStarted (arc x y r a b acw addToPath s) = pathStarted s"
proof -
  have acw: "(case acw of None \<Rightarrow> False | Some c \<Rightarrow> c) = (acw = Some True)"
    by (cases acw) simp_all
  have a: "addToPath = None \<or> addToPath = Some False \<longrightarrow>
      arc x y r a b acw addToPath s =
        s\<lparr>trace := trace s @ [BeginPath, Arc x y r a b (acw = Some True)]\<rparr>"
    by (auto simp: arc_def issue_def acw)
  have b: "addToPath = Some True \<longrightarrow>
      arc x y r a b acw addToPath s = s\<lparr>trace := trace s @ [Arc x y r a b (acw = Some True)]\<rparr>"
    by (simp add: arc_def issue_def acw)
  have c: "addToPath = None \<or> addToPath = Some False \<longrightarrow>
      current_path (trace (arc x y r a b acw addToPath s)) = [Arc x y r a b (acw = Some True)]"
    using a by (auto simp: current_path_append)
  have d: "addToPath = Some True \<longrightarrow>
      current_path (trace (arc x y r a b acw addToPath s)) =
        current_path (trace s) @ [Arc x y r a b (acw = Some True)]"
    using b by (auto simp: current_path_append)
  have e: "pathStarted (arc x y r a b acw addToPath s) = pathStarted s"
    by (simp add: arc_def issue_def Let_def)
  from a b c d e show ?thesis by blast
qed

text \<open>
  After \<open>addPoint(20, 20)\<close> the flag is true. An arc with \<open>addToPath\<close> left out replaces
  the path on the surface and the flag is still true; an arc with \<open>addToPath\<close> true
  extends the path.
\<close>

theorem arc_path_flag_unchanged_witness:
  "pathStarted (addPoint 20 20 (Canvas_class win0 Null (Some True)))
   \<and> current_path (trace (arc 0 0 10 0 3 (Some False) None
        (addPoint 20 20 (Canvas_class win0 Null (Some True))))) = [Arc 0 0 10 0 3 False]
   \<and> pathStarted (arc 0 0 10 0 3 (Some False) None
        (addPoint 20 20 (Canvas_class win0 Null (Some True))))
   \<and> trace (arc 0 0 10 0 3 (Some False) None
        (addPoint 20 20 (Canvas_class win0 Null (Some True)))) =
      [CreateElement, AppendChild, GetContext, BeginPath, MoveTo 20 20,
       BeginPath, Arc 0 0 10 0 3 False]
   \<and> current_path (trace (arc 0 0 10 0 3 (Some False) (Some True)
        (addPoint 20 20 (Canvas_class win0 Null (Some True))))) =
      [MoveTo 20 20, Arc 0 0 10 0 3 False]
   \<and> trace (arc 0 0 10 0 3 (Some False) (Some True)
        (addPoint 20 20 (Canvas_class win0 Null (Some True)))) =
      [CreateElement, AppendChild, GetContext, BeginPath, MoveTo 20 20,
       Arc 0 0 10 0 3 False]"
  using arc_path_flag_unchanged
          [where addToPath = None and acw = "Some False"
             and s = "addPoint 20 20 (Canvas_class win0 Null (Some True))"
             and x = 0 and y = 0 and r = 10 and a = 0 and b = 3]
        arc_path_flag_unchanged
          [where addToPath = "Some True" and acw = "Some False"
             and s = "addPoint 20 20 (Canvas_class win0 Null (Some True))"
             and x = 0 and y = 0 and r = 10 and a = 0 and b = 3]
  by (simp add: Canvas_class_def addPoint_def issue_def current_path_def)

section \<open>Painting the background\<close>

text \<open>
  C8. \<open>background(color)\<close> with a colour sets the fill style to the colour, fills the
  rectangle from \<open>(0, 0)\<close> of the width and height of the surface while that style is in
  force, and sets the fill style back to the value it had before the call; without an
  argument it fills the same rectangle and issues nothing else. In both cases the state
  after the call differs from the state before in its trace only, so the fill style is
  the one from before the call.
\<close>

theorem background_restores_fillStyle:
  "background (Some c) s =
     s\<lparr>trace := trace s @
        [SetFillStyle c,
         FillRect 0 0 (el_width (canvas s)) (el_height (canvas s)),
         SetFillStyle (ctx_fillStyle (canvas s))]\<rparr>
   \<and> background (Some c) s =
     fillStyle (ctx_fillStyle (canvas s))
       (rect 0 0 (el_width (canvas s)) (el_height (canvas s)) (fillStyle c s))
   \<and> ctx_fillStyle (canvas (fillStyle c s)) = c
   \<and> background None s =
     s\<lparr>trace := trace s @ [FillRect 0 0 (el_width (canvas s)) (el_height (canvas s))]\<rparr>
   \<and> ctx_fillStyle (canvas (background color s)) = ctx_fillStyle (canvas s)"
proof -
  have a: "background (Some c) s =
     s\<lparr>trace := trace s @
        [SetFillStyle c,
         FillRect 0 0 (el_width (canvas s)) (el_height (canvas s)),
         SetFillStyle (ctx_fillStyle (canvas s))]\<rparr>" for c
    by (simp add: background_def fillStyle_def issue_def)
  have b: "background (Some c) s =
     fillStyle (ctx_fillStyle (canvas s))
       (rect 0 0 (el_width (canvas s)) (el_height (canvas s)) (fillStyle c s))"
    by (simp add: background_def fillStyle_def rect_def issue_def)
  have c: "ctx_fillStyle (canvas (fillStyle c s)) = c"
    by (simp add: fillStyle_def issue_def)
  have d: "background None s =
     s\<lparr>trace := trace s @ [FillRect 0 0 (el_width (canvas s)) (el_height (canvas s))]\<rparr>"
    by (simp add: background_def issue_def)
  have e: "ctx_fillStyle (canvas (background color s)) = ctx_fillStyle (canvas s)"
    by (cases color) (simp_all add: a d)
  from a b c d e show ?thesis by blast
qed

text \<open>A canvas of 100 by 50 whose fill style is red is painted blue and is red again.\<close>

theorem background_restores_fillStyle_witness:
  "trace (background (Some ''blue'')
            (fillStyle ''red''
               \<lparr>window = win0, canvas = createElement\<lparr>el_width := 100, el_height := 50\<rparr>,
                trace = [], fullWindow = False, pathStarted = False,
                width = Some 100, height = Some 50\<rparr>)) =
     [SetFillStyle ''red'', SetFillStyle ''blue'', FillRect 0 0 100 50, SetFillStyle ''red'']
   \<and> ctx_fillStyle (canvas (background (Some ''blue'')
            (fillStyle ''red''
               \<lparr>window = win0, canvas = createElement\<lparr>el_width := 100, el_height := 50\<rparr>,
                trace = [], fullWindow = False, pathStarted = False,
                width = Some 100, height = Some 50\<rparr>))) = ''red''"
  using background_restores_fillStyle
          [of "''blue''"
              "fillStyle ''red''
                 \<lparr>window = win0, canvas = createElement\<lparr>el_width := 100, el_height := 50\<rparr>,
                  trace = [], fullWindow = False, pathStarted = False,
                  width = Some 100, height = Some 50\<rparr>"
              "Some ''blue''"]
  by (simp add: fillStyle_def issue_def)

section \<open>Sizes\<close>

text \<open>
  C9. For every width, height and state, \<open>setSize(w, h)\<close> leaves \<open>pathStarted\<close> as it
  was, in both files, and so does a resize event of the viewport (to \<open>vw\<close> by \<open>vh\<close>),
  whether the handler is registered or not. The surface's own path is empty after the resize, so where the flag
  was true it stays true without a path behind it, and the next \<open>addPoint\<close> issues a line
  and neither begins a path nor moves the pen.
\<close>

theorem setSize_keeps_pathStarted:
  "pathStarted (setSize_proto w h s) = pathStarted s
   \<and> pathStarted (setSize_class w h s) = pathStarted s
   \<and> pathStarted (resize_event_proto vw vh s) = pathStarted s
   \<and> pathStarted (resize_event_class vw vh s) = pathStarted s
   \<and> current_path (trace (setSize_proto w h s)) = []
   \<and> current_path (trace (setSize_class w h s)) = []
   \<and> (pathStarted s \<longrightarrow>
        trace (addPoint x y (setSize_proto w h s)) =
          trace s @ [SetWidth w, SetHeight h, LineTo x y]
      \<and> trace (addPoint x y (setSize_class w h s)) =
          trace s @ [SetWidth w, SetHeight h, LineTo x y])"
proof -
  have a: "pathStarted (setSize_proto w h s) = pathStarted s"
          "pathStarted (setSize_class w h s) = pathStarted s" for w h s
    by (simp_all add: setSize_proto_def setSize_class_def issue_def)
  have b: "pathStarted (resize_event_proto vw vh s) = pathStarted s"
    by (simp add: resize_event_proto_def onWindowResizeHandler_proto_def a Let_def)
  have c: "pathStarted (resize_event_class vw vh s) = pathStarted s"
    by (simp add: resize_event_class_def onWindowResizeHandler_class_def a Let_def)
  have d: "current_path (trace (setSize_proto w h s)) = []"
          "current_path (trace (setSize_class w h s)) = []"
    by (simp_all add: setSize_proto_def setSize_class_def issue_def current_path_append)
  have e: "pathStarted s \<longrightarrow>
        trace (addPoint x y (setSize_proto w h s)) =
          trace s @ [SetWidth w, SetHeight h, LineTo x y]
      \<and> trace (addPoint x y (setSize_class w h s)) =
          trace s @ [SetWidth w, SetHeight h, LineTo x y]"
    by (simp add: addPoint_def a) (simp add: setSize_proto_def setSize_class_def issue_def)
  from a [of w h s] b c d e show ?thesis by blast
qed

text \<open>A path is started, the canvas is resized, and a second point is added.\<close>

theorem setSize_keeps_pathStarted_witness:
  "pathStarted (addPoint 20 20 (Canvas_class win0 Null (Some True)))
   \<and> pathStarted (setSize_class 640 480 (addPoint 20 20 (Canvas_class win0 Null (Some True))))
   \<and> current_path
       (trace (setSize_class 640 480 (addPoint 20 20 (Canvas_class win0 Null (Some True))))) = []
   \<and> trace (addPoint 40 10
        (setSize_class 640 480 (addPoint 20 20 (Canvas_class win0 Null (Some True))))) =
      [CreateElement, AppendChild, GetContext, BeginPath, MoveTo 20 20,
       SetWidth 640, SetHeight 480, LineTo 40 10]"
  using setSize_keeps_pathStarted
          [where w = 640 and h = 480 and x = 40 and y = 10
             and s = "addPoint 20 20 (Canvas_class win0 Null (Some True))"]
  by (simp add: Canvas_class_def addPoint_def setSize_class_def issue_def)

text \<open>
  C4, as the code has it. In \<^verbatim>\<open>src/unnamed/part_000\<close>, for every \<open>w\<close> and \<open>h\<close>,
  \<open>setSize(w, h)\<close> assigns \<open>w\<close> and \<open>h\<close> to the surface's width and height and sets the
  object's \<open>width\<close> and \<open>height\<close> to \<open>w\<close> and \<open>h\<close>. When \<open>w\<close> and \<open>h\<close> are valid
  dimensions (integers from 0 to 2147483647) the surface's backing dimensions are \<open>w\<close> and
  \<open>h\<close> after the call; for every other number they are what the platform's conversion
  makes of it, and the object's \<open>width\<close> and \<open>height\<close> are \<open>w\<close> and \<open>h\<close> all the same.
  In \<^verbatim>\<open>src/lib/index.js\<close>, whose class has no \<open>width\<close> and \<open>height\<close>, \<open>setSize(w, h)\<close>
  makes the same two assignments to the surface and leaves the object as it is.
\<close>

theorem setSize_sets_dimensions:
  "setSize_proto w h s =
     s\<lparr>canvas := (canvas s)\<lparr>el_width := set_dimension 300 w,
                              el_height := set_dimension 150 h\<rparr>,
       trace := trace s @ [SetWidth w, SetHeight h],
       width := Some w, height := Some h\<rparr>
   \<and> width (setSize_proto w h s) = Some w
   \<and> height (setSize_proto w h s) = Some h
   \<and> (valid_dimension w \<longrightarrow> el_width (canvas (setSize_proto w h s)) = w)
   \<and> (valid_dimension h \<longrightarrow> el_height (canvas (setSize_proto w h s)) = h)
   \<and> setSize_class w h s =
     s\<lparr>canvas := (canvas s)\<lparr>el_width := set_dimension 300 w,
                              el_height := set_dimension 150 h\<rparr>,
       trace := trace s @ [SetWidth w, SetHeight h]\<rparr>
   \<and> (valid_dimension w \<longrightarrow> el_width (canvas (setSize_class w h s)) = w)
   \<and> (valid_dimension h \<longrightarrow> el_height (canvas (setSize_class w h s)) = h)
   \<and> width (setSize_class w h s) = width s
   \<and> height (setSize_class w h s) = height s
   \<and> width (setSize_class w h (Canvas_class win canvasElement fw)) = None
   \<and> height (setSize_class w h (Canvas_class win canvasElement fw)) = None"
proof -
  have a: "setSize_proto w h s =
     s\<lparr>canvas := (canvas s)\<lparr>el_width := set_dimension 300 w,
                              el_height := set_dimension 150 h\<rparr>,
       trace := trace s @ [SetWidth w, SetHeight h],
       width := Some w, height := Some h\<rparr>"
    by (simp add: setSize_proto_def issue_def)
  have b: "setSize_class w h s =
     s\<lparr>canvas := (canvas s)\<lparr>el_width := set_dimension 300 w,
                              el_height := set_dimension 150 h\<rparr>,
       trace := trace s @ [SetWidth w, SetHeight h]\<rparr>" for s
    by (simp add: setSize_class_def issue_def)
  have c: "width (setSize_proto w h s) = Some w"
          "height (setSize_proto w h s) = Some h"
    by (simp_all add: a)
  have d: "valid_dimension w \<longrightarrow> el_width (canvas (setSize_proto w h s)) = w"
          "valid_dimension h \<longrightarrow> el_height (canvas (setSize_proto w h s)) = h"
    by (simp_all add: a set_dimension_valid)
  have e: "valid_dimension w \<longrightarrow> el_width (canvas (setSize_class w h s)) = w"
          "valid_dimension h \<longrightarrow> el_height (canvas (setSize_class w h s)) = h"
    by (simp_all add: b set_dimension_valid)
  have f: "width (setSize_class w h s) = width s"
          "height (setSize_class w h s) = height s"
    by (simp_all add: b)
  have g: "width (setSize_class w h (Canvas_class win canvasElement fw)) = None"
          "height (setSize_class w h (Canvas_class win canvasElement fw)) = None"
    by (simp_all add: b Canvas_class_def split: arg.splits prod.splits)
  from a b [of s] c d e f g show ?thesis by blast
qed

text \<open>
  \<open>setSize(640, 480)\<close> on an object of \<^verbatim>\<open>src/unnamed/part_000\<close> made with
  \<open>autoInit = false\<close>, and on a new object of the class.
\<close>

theorem setSize_sets_dimensions_witness:
  "valid_dimension 640 \<and> valid_dimension 480
   \<and> el_width (canvas (setSize_proto 640 480
        \<lparr>window = win0, canvas = createElement,
         trace = [CreateElement, AppendChild, GetContext],
         fullWindow = True, pathStarted = False, width = Some 0, height = Some 0\<rparr>)) = 640
   \<and> el_height (canvas (setSize_proto 640 480
        \<lparr>window = win0, canvas = createElement,
         trace = [CreateElement, AppendChild, GetContext],
         fullWindow = True, pathStarted = False, width = Some 0, height = Some 0\<rparr>)) = 480
   \<and> width (setSize_proto 640 480
        \<lparr>window = win0, canvas = createElement,
         trace = [CreateElement, AppendChild, GetContext],
         fullWindow = True, pathStarted = False, width = Some 0, height = Some 0\<rparr>) = Some 640
   \<and> height (setSize_proto 640 480
        \<lparr>window = win0, canvas = createElement,
         trace = [CreateElement, AppendChild, GetContext],
         fullWindow = True, pathStarted = False, width = Some 0, height = Some 0\<rparr>) = Some 480
   \<and> el_width (canvas (setSize_class 640 480 (Canvas_class win0 Undefined None))) = 640
   \<and> el_height (canvas (setSize_class 640 480 (Canvas_class win0 Undefined None))) = 480
   \<and> width (setSize_class 640 480 (Canvas_class win0 Undefined None)) = None"
  using setSize_sets_dimensions
          [where w = 640 and h = 480 and win = win0 and canvasElement = Undefined
             and fw = None
             and s = "\<lparr>window = win0, canvas = createElement,
                       trace = [CreateElement, AppendChild, GetContext],
                       fullWindow = True, pathStarted = False,
                       width = Some 0, height = Some 0\<rparr>"]
        setSize_sets_dimensions
          [where w = 640 and h = 480 and win = win0 and canvasElement = Undefined
             and fw = None and s = "Canvas_class win0 Undefined None"]
  by (simp add: valid_dimension_def set_dimension_def to_unsigned_long_def)

text \<open>
  C4 as stated fails in two ways. On the class of \<^verbatim>\<open>src/lib/index.js\<close>, after
  \<open>setSize(640, 480)\<close> on a new canvas the object's \<open>width\<close> and \<open>height\<close> are not 640
  and 480. On \<^verbatim>\<open>src/unnamed/part_000\<close>, after \<open>setSize(-5, 640.5)\<close> the object's
  \<open>width\<close> and \<open>height\<close> are \<open>-5\<close> and \<open>640.5\<close> and the surface's backing dimensions are
  300 and 640.
\<close>

theorem setSize_counterexample:
  "\<not> (width (setSize_class 640 480 (Canvas_class win0 Undefined None)) = Some 640
      \<and> height (setSize_class 640 480 (Canvas_class win0 Undefined None)) = Some 480)
   \<and> \<not> (el_width (canvas (setSize_proto (- 5) 640.5
        \<lparr>window = win0, canvas = createElement,
         trace = [CreateElement, AppendChild, GetContext],
         fullWindow = True, pathStarted = False, width = Some 0, height = Some 0\<rparr>)) = - 5
      \<and> el_height (canvas (setSize_proto (- 5) 640.5
        \<lparr>window = win0, canvas = createElement,
         trace = [CreateElement, AppendChild, GetContext],
         fullWindow = True, pathStarted = False, width = Some 0, height = Some 0\<rparr>)) = 640.5)
   \<and> el_width (canvas (setSize_proto (- 5) 640.5
        \<lparr>window = win0, canvas = createElement,
         trace = [CreateElement, AppendChild, GetContext],
         fullWindow = True, pathStarted = False, width = Some 0, height = Some 0\<rparr>)) = 300
   \<and> el_height (canvas (setSize_proto (- 5) 640.5
        \<lparr>window = win0, canvas = createElement,
         trace = [CreateElement, AppendChild, GetContext],
         fullWindow = True, pathStarted = False, width = Some 0, height = Some 0\<rparr>)) = 640
   \<and> width (setSize_proto (- 5) 640.5
        \<lparr>window = win0, canvas = createElement,
         trace = [CreateElement, AppendChild, GetContext],
         fullWindow = True, pathStarted = False, width = Some 0, height = Some 0\<rparr>) = Some (- 5)
   \<and> height (setSize_proto (- 5) 640.5
        \<lparr>window = win0, canvas = createElement,
         trace = [CreateElement, AppendChild, GetContext],
         fullWindow = True, pathStarted = False, width = Some 0, height = Some 0\<rparr>) = Some 640.5"
  by (simp add: setSize_class_def setSize_proto_def issue_def Canvas_class_def
        set_dimension_def to_unsigned_long_def)

section \<open>Initialisation\<close>

text \<open>
  C5, as the code has it. In \<^verbatim>\<open>src/unnamed/part_000\<close>, for every object whose
  \<open>fullWindow\<close> is false, \<open>init()\<close> copies the surface's backing dimensions into \<open>width\<close>
  and \<open>height\<close> and changes nothing else; so an object constructed with
  \<open>fullWindow = false\<close> on a given surface, whatever \<open>autoInit\<close> is, has the surface's
  dimensions as its \<open>width\<close> and \<open>height\<close> after \<open>init()\<close>. In \<^verbatim>\<open>src/lib/index.js\<close>,
  \<open>init()\<close> on an object whose \<open>fullWindow\<close> is false changes nothing, and \<open>init()\<close>
  never sets \<open>width\<close> or \<open>height\<close>.
\<close>

theorem init_without_fullWindow:
  "(\<not> fullWindow s \<longrightarrow>
      init_proto s =
        s\<lparr>width := Some (el_width (canvas s)), height := Some (el_height (canvas s))\<rparr>)
   \<and> (\<exists>s0. Canvas_proto True win (Given e) (Some False) autoInit = Inr s0
          \<and> \<not> fullWindow s0
          \<and> canvas (init_proto s0) = e
          \<and> width (init_proto s0) = Some (el_width e)
          \<and> height (init_proto s0) = Some (el_height e))
   \<and> (\<not> fullWindow s \<longrightarrow> init_class s = s)
   \<and> width (init_class s) = width s
   \<and> height (init_class s) = height s"
proof -
  have a: "\<not> fullWindow s \<longrightarrow>
      init_proto s =
        s\<lparr>width := Some (el_width (canvas s)), height := Some (el_height (canvas s))\<rparr>"
    by (simp add: init_proto_def)
  have b: "\<exists>s0. Canvas_proto True win (Given e) (Some False) autoInit = Inr s0
          \<and> \<not> fullWindow s0
          \<and> canvas (init_proto s0) = e
          \<and> width (init_proto s0) = Some (el_width e)
          \<and> height (init_proto s0) = Some (el_height e)"
  proof -
    let ?s0 = "\<lparr>window = win, canvas = e, trace = [GetContext],
                fullWindow = False, pathStarted = False,
                width = Some (if autoInit = Some False then 0 else el_width e),
                height = Some (if autoInit = Some False then 0 else el_height e)\<rparr>"
    have mk: "Canvas_proto True win (Given e) (Some False) autoInit = Inr ?s0"
    proof (cases autoInit)
      case None
      then show ?thesis by (simp add: Canvas_proto_def init_proto_def)
    next
      case (Some ai)
      then show ?thesis by (cases ai) (simp_all add: Canvas_proto_def init_proto_def)
    qed
    have "\<not> fullWindow ?s0" "canvas (init_proto ?s0) = e"
         "width (init_proto ?s0) = Some (el_width e)"
         "height (init_proto ?s0) = Some (el_height e)"
      by (simp_all add: init_proto_def)
    with mk show ?thesis by blast
  qed
  have c: "\<not> fullWindow s \<longrightarrow> init_class s = s"
    by (simp add: init_class_def)
  have d: "width (init_class s) = width s" "height (init_class s) = height s"
    by (simp_all add: init_class_def setSize_class_def issue_def Let_def)
  from a b c d show ?thesis by blast
qed

text \<open>
  The scenario of the specification on \<^verbatim>\<open>src/unnamed/part_000\<close>: a surface of 100 by 50,
  \<open>fullWindow = false\<close>, \<open>autoInit = false\<close>, then \<open>init()\<close>.
\<close>

theorem init_without_fullWindow_witness:
  "\<not> fullWindow
       \<lparr>window = win0, canvas = createElement\<lparr>el_width := 100, el_height := 50\<rparr>,
        trace = [GetContext], fullWindow = False, pathStarted = False,
        width = Some 0, height = Some 0\<rparr>
   \<and> Canvas_proto True win0 (Given (createElement\<lparr>el_width := 100, el_height := 50\<rparr>))
        (Some False) (Some False) =
      Inr \<lparr>window = win0, canvas = createElement\<lparr>el_width := 100, el_height := 50\<rparr>,
           trace = [GetContext], fullWindow = False, pathStarted = False,
           width = Some 0, height = Some 0\<rparr>
   \<and> width (init_proto
        \<lparr>window = win0, canvas = createElement\<lparr>el_width := 100, el_height := 50\<rparr>,
         trace = [GetContext], fullWindow = False, pathStarted = False,
         width = Some 0, height = Some 0\<rparr>) = Some 100
   \<and> height (init_proto
        \<lparr>window = win0, canvas = createElement\<lparr>el_width := 100, el_height := 50\<rparr>,
         trace = [GetContext], fullWindow = False, pathStarted = False,
         width = Some 0, height = Some 0\<rparr>) = Some 50"
  using init_without_fullWindow
          [of "\<lparr>window = win0, canvas = createElement\<lparr>el_width := 100, el_height := 50\<rparr>,
                trace = [GetContext], fullWindow = False, pathStarted = False,
                width = Some 0, height = Some 0\<rparr>"
              win0 "createElement\<lparr>el_width := 100, el_height := 50\<rparr>" "Some False"]
  by (simp add: Canvas_proto_def)

text \<open>
  C5 as stated fails on the class of \<^verbatim>\<open>src/lib/index.js\<close>: constructed with
  \<open>fullWindow = false\<close> on a surface of 100 by 50, the object has no \<open>width\<close> of 100 and
  \<open>height\<close> of 50 after \<open>init()\<close>.
\<close>

theorem init_class_counterexample:
  "\<not> (width (init_class
          (Canvas_class win0 (Given (createElement\<lparr>el_width := 100, el_height := 50\<rparr>))
             (Some False))) = Some 100
      \<and> height (init_class
          (Canvas_class win0 (Given (createElement\<lparr>el_width := 100, el_height := 50\<rparr>))
             (Some False))) = Some 50)"
  by (simp add: init_class_def Canvas_class_def)

text \<open>
  C6, as the code has it. In \<^verbatim>\<open>src/unnamed/part_000\<close>, for every object whose
  \<open>fullWindow\<close> is true, after \<open>init()\<close> the object's \<open>width\<close> and \<open>height\<close> (and the
  surface's backing dimensions) are the viewport's dimensions at the time of the call and
  the resize handler is registered; every resize event that reaches the registered handler
  sets them to the viewport's dimensions at that event and leaves the handler registered,
  so after any sequence of resize events they are the dimensions of the last one. In
  \<^verbatim>\<open>src/lib/index.js\<close>, \<open>init()\<close> and each such event set the surface's backing
  dimensions to the viewport's, and the object's \<open>width\<close> and \<open>height\<close> are not set.
\<close>

theorem init_fullWindow_follows_viewport:
  "(fullWindow s \<longrightarrow>
      width (init_proto s) = Some (px (innerWidth (window s)))
      \<and> height (init_proto s) = Some (px (innerHeight (window s)))
      \<and> el_width (canvas (init_proto s)) = px (innerWidth (window s))
      \<and> el_height (canvas (init_proto s)) = px (innerHeight (window s))
      \<and> resizeListener (window (init_proto s)))
   \<and> (resizeListener (window s) \<longrightarrow>
      width (resize_event_proto w h s) = Some (px w)
      \<and> height (resize_event_proto w h s) = Some (px h)
      \<and> el_width (canvas (resize_event_proto w h s)) = px w
      \<and> el_height (canvas (resize_event_proto w h s)) = px h
      \<and> resizeListener (window (resize_event_proto w h s)))
   \<and> (fullWindow s \<longrightarrow>
      width (resize_events_proto (es @ [(w, h)]) (init_proto s)) = Some (px w)
      \<and> height (resize_events_proto (es @ [(w, h)]) (init_proto s)) = Some (px h))
   \<and> (fullWindow s \<longrightarrow>
      el_width (canvas (init_class s)) = px (innerWidth (window s))
      \<and> el_height (canvas (init_class s)) = px (innerHeight (window s))
      \<and> resizeListener (window (init_class s))
      \<and> width (init_class s) = width s
      \<and> height (init_class s) = height s)
   \<and> (resizeListener (window s) \<longrightarrow>
      el_width (canvas (resize_event_class w h s)) = px w
      \<and> el_height (canvas (resize_event_class w h s)) = px h
      \<and> resizeListener (window (resize_event_class w h s))
      \<and> width (resize_event_class w h s) = width s
      \<and> height (resize_event_class w h s) = height s)
   \<and> (fullWindow s \<longrightarrow>
      el_width (canvas (resize_events_class (es @ [(w, h)]) (init_class s))) = px w
      \<and> el_height (canvas (resize_events_class (es @ [(w, h)]) (init_class s))) = px h)"
proof -
  have a: "fullWindow s \<longrightarrow>
      width (init_proto s) = Some (px (innerWidth (window s)))
      \<and> height (init_proto s) = Some (px (innerHeight (window s)))
      \<and> el_width (canvas (init_proto s)) = px (innerWidth (window s))
      \<and> el_height (canvas (init_proto s)) = px (innerHeight (window s))
      \<and> resizeListener (window (init_proto s))"
    by (simp add: init_proto_fullWindow)
  have b: "resizeListener (window s) \<longrightarrow>
      width (resize_event_proto w h s) = Some (px w)
      \<and> height (resize_event_proto w h s) = Some (px h)
      \<and> el_width (canvas (resize_event_proto w h s)) = px w
      \<and> el_height (canvas (resize_event_proto w h s)) = px h
      \<and> resizeListener (window (resize_event_proto w h s))" for s
    by (simp add: resize_event_proto_registered)
  have c: "fullWindow s \<longrightarrow>
      width (resize_events_proto (es @ [(w, h)]) (init_proto s)) = Some (px w)
      \<and> height (resize_events_proto (es @ [(w, h)]) (init_proto s)) = Some (px h)"
  proof
    assume "fullWindow s"
    then have "resizeListener (window (init_proto s))" using a by simp
    then have "resizeListener (window (resize_events_proto es (init_proto s)))"
      by (rule resize_events_proto_registered)
    then show "width (resize_events_proto (es @ [(w, h)]) (init_proto s)) = Some (px w)
      \<and> height (resize_events_proto (es @ [(w, h)]) (init_proto s)) = Some (px h)"
      using b [of "resize_events_proto es (init_proto s)"]
      by (simp add: resize_events_proto_snoc)
  qed
  have d: "fullWindow s \<longrightarrow>
      el_width (canvas (init_class s)) = px (innerWidth (window s))
      \<and> el_height (canvas (init_class s)) = px (innerHeight (window s))
      \<and> resizeListener (window (init_class s))
      \<and> width (init_class s) = width s
      \<and> height (init_class s) = height s"
    by (simp add: init_class_fullWindow)
  have e: "resizeListener (window s) \<longrightarrow>
      el_width (canvas (resize_event_class w h s)) = px w
      \<and> el_height (canvas (resize_event_class w h s)) = px h
      \<and> resizeListener (window (resize_event_class w h s))
      \<and> width (resize_event_class w h s) = width s
      \<and> height (resize_event_class w h s) = height s" for s
    by (simp add: resize_event_class_registered)
  have f: "fullWindow s \<longrightarrow>
      el_width (canvas (resize_events_class (es @ [(w, h)]) (init_class s))) = px w
      \<and> el_height (canvas (resize_events_class (es @ [(w, h)]) (init_class s))) = px h"
  proof
    assume "fullWindow s"
    then have "resizeListener (window (init_class s))" using d by simp
    then have "resizeListener (window (resize_events_class es (init_class s)))"
      by (rule resize_events_class_registered)
    then show "el_width (canvas (resize_events_class (es @ [(w, h)]) (init_class s))) = px w
      \<and> el_height (canvas (resize_events_class (es @ [(w, h)]) (init_class s))) = px h"
      using e [of "resize_events_class es (init_class s)"]
      by (simp add: resize_events_class_snoc)
  qed
  from a b [of s] c d e [of s] f show ?thesis by blast
qed

text \<open>
  An object of \<^verbatim>\<open>src/unnamed/part_000\<close> constructed with \<open>fullWindow = true\<close> and
  \<open>autoInit = false\<close> in a viewport of 800 by 600 is initialised; the viewport is then
  resized to 1024 by 768 and to 640 by 480.
\<close>

theorem init_fullWindow_follows_viewport_witness:
  "Canvas_proto True win0 Undefined (Some True) (Some False) =
     Inr \<lparr>window = win0, canvas = createElement,
          trace = [CreateElement, AppendChild, GetContext],
          fullWindow = True, pathStarted = False, width = Some 0, height = Some 0\<rparr>
   \<and> fullWindow
       \<lparr>window = win0, canvas = createElement,
        trace = [CreateElement, AppendChild, GetContext],
        fullWindow = True, pathStarted = False, width = Some 0, height = Some 0\<rparr>
   \<and> width (init_proto
       \<lparr>window = win0, canvas = createElement,
        trace = [CreateElement, AppendChild, GetContext],
        fullWindow = True, pathStarted = False, width = Some 0, height = Some 0\<rparr>) = Some 800
   \<and> height (init_proto
       \<lparr>window = win0, canvas = createElement,
        trace = [CreateElement, AppendChild, GetContext],
        fullWindow = True, pathStarted = False, width = Some 0, height = Some 0\<rparr>) = Some 600
   \<and> resizeListener (window (init_proto
       \<lparr>window = win0, canvas = createElement,
        trace = [CreateElement, AppendChild, GetContext],
        fullWindow = True, pathStarted = False, width = Some 0, height = Some 0\<rparr>))
   \<and> width (resize_events_proto [(pixels_of 1024, pixels_of 768), (pixels_of 640, pixels_of 480)] (init_proto
       \<lparr>window = win0, canvas = createElement,
        trace = [CreateElement, AppendChild, GetContext],
        fullWindow = True, pathStarted = False, width = Some 0, height = Some 0\<rparr>)) = Some 640
   \<and> height (resize_events_proto [(pixels_of 1024, pixels_of 768), (pixels_of 640, pixels_of 480)] (init_proto
       \<lparr>window = win0, canvas = createElement,
        trace = [CreateElement, AppendChild, GetContext],
        fullWindow = True, pathStarted = False, width = Some 0, height = Some 0\<rparr>)) = Some 480
   \<and> width (resize_event_proto (pixels_of 1024) (pixels_of 768) (init_proto
       \<lparr>window = win0, canvas = createElement,
        trace = [CreateElement, AppendChild, GetContext],
        fullWindow = True, pathStarted = False, width = Some 0, height = Some 0\<rparr>)) = Some 1024"
  using init_fullWindow_follows_viewport
          [of "\<lparr>window = win0, canvas = createElement,
                trace = [CreateElement, AppendChild, GetContext],
                fullWindow = True, pathStarted = False, width = Some 0, height = Some 0\<rparr>"
              "pixels_of 640" "pixels_of 480" "[(pixels_of 1024, pixels_of 768)]"]
        init_fullWindow_follows_viewport
          [of "init_proto
                \<lparr>window = win0, canvas = createElement,
                 trace = [CreateElement, AppendChild, GetContext],
                 fullWindow = True, pathStarted = False, width = Some 0, height = Some 0\<rparr>"
              "pixels_of 1024" "pixels_of 768" "[]"]
  by (simp add: win0_def Canvas_proto_def px_pixels_of)

text \<open>
  C6 as stated fails on the class of \<^verbatim>\<open>src/lib/index.js\<close>: constructed with
  \<open>fullWindow = true\<close> in a viewport of 800 by 600, the object has no \<open>width\<close> of 800 and
  \<open>height\<close> of 600 after \<open>init()\<close>, though its surface has.
\<close>

theorem init_class_fullWindow_counterexample:
  "\<not> (width (init_class (Canvas_class win0 Undefined (Some True))) = Some 800
      \<and> height (init_class (Canvas_class win0 Undefined (Some True))) = Some 600)
   \<and> el_width (canvas (init_class (Canvas_class win0 Undefined (Some True)))) = 800
   \<and> el_height (canvas (init_class (Canvas_class win0 Undefined (Some True)))) = 600"
  by (simp add: init_class_def setSize_class_def issue_def Canvas_class_def win0_def
        px_pixels_of set_dimension_def to_unsigned_long_def)

section \<open>Construction\<close>

text \<open>
  C7, as the code has it. In \<^verbatim>\<open>src/lib/index.js\<close>, for every combination of
  arguments, the constructor creates a surface and appends it to the body when none is
  given, obtains the context, and does nothing else: the surface is not resized, no
  listener is registered, the window is as it was. In \<^verbatim>\<open>src/unnamed/part_000\<close> the
  same holds when \<open>autoInit\<close> is false and the surface is given or left out; when
  \<open>autoInit\<close> is true or left out, the constructor goes on to call \<open>init()\<close> itself. The
  resize and the registration are operations of \<open>init()\<close> on an object whose
  \<open>fullWindow\<close> is true; on one whose \<open>fullWindow\<close> is false \<open>init()\<close> issues nothing.
\<close>

theorem constructor_effects:
  "window (Canvas_class win ce fw) = win
   \<and> canvas (Canvas_class win ce fw) = (case ce of Given e \<Rightarrow> e | _ \<Rightarrow> createElement)
   \<and> trace (Canvas_class win ce fw) =
       (case ce of Given e \<Rightarrow> [GetContext] | _ \<Rightarrow> [CreateElement, AppendChild, GetContext])
   \<and> (ce \<noteq> Null \<longrightarrow>
       (\<exists>s0. Canvas_proto True win ce fw (Some False) = Inr s0
          \<and> window s0 = win
          \<and> canvas s0 = (case ce of Given e \<Rightarrow> e | _ \<Rightarrow> createElement)
          \<and> trace s0 =
              (case ce of Given e \<Rightarrow> [GetContext]
               | _ \<Rightarrow> [CreateElement, AppendChild, GetContext])
          \<and> (autoInit \<noteq> Some False \<longrightarrow>
                Canvas_proto True win ce fw autoInit = Inr (init_proto s0))))
   \<and> (fullWindow s \<longrightarrow>
       trace (init_class s) =
         trace s @ [SetWidth (px (innerWidth (window s))),
                    SetHeight (px (innerHeight (window s))), AddResizeListener]
       \<and> trace (init_proto s) =
         trace s @ [SetDisplay ''block'', SetWidth (px (innerWidth (window s))),
                    SetHeight (px (innerHeight (window s))), AddResizeListener])
   \<and> (\<not> fullWindow s \<longrightarrow>
       init_class s = s
       \<and> trace (init_proto s) = trace s
       \<and> window (init_proto s) = window s
       \<and> canvas (init_proto s) = canvas s)"
proof -
  have a: "window (Canvas_class win ce fw) = win"
    by (cases ce) (simp_all add: Canvas_class_def)
  have b: "canvas (Canvas_class win ce fw) = (case ce of Given e \<Rightarrow> e | _ \<Rightarrow> createElement)"
    by (cases ce) (simp_all add: Canvas_class_def)
  have c: "trace (Canvas_class win ce fw) =
       (case ce of Given e \<Rightarrow> [GetContext] | _ \<Rightarrow> [CreateElement, AppendChild, GetContext])"
    by (cases ce) (simp_all add: Canvas_class_def)
  have d: "ce \<noteq> Null \<longrightarrow>
       (\<exists>s0. Canvas_proto True win ce fw (Some False) = Inr s0
          \<and> window s0 = win
          \<and> canvas s0 = (case ce of Given e \<Rightarrow> e | _ \<Rightarrow> createElement)
          \<and> trace s0 =
              (case ce of Given e \<Rightarrow> [GetContext]
               | _ \<Rightarrow> [CreateElement, AppendChild, GetContext])
          \<and> (autoInit \<noteq> Some False \<longrightarrow>
                Canvas_proto True win ce fw autoInit = Inr (init_proto s0)))"
  proof
    assume nn: "ce \<noteq> Null"
    let ?s0 = "\<lparr>window = win,
                canvas = (case ce of Given e \<Rightarrow> e | _ \<Rightarrow> createElement),
                trace = (case ce of Given e \<Rightarrow> [GetContext]
                         | _ \<Rightarrow> [CreateElement, AppendChild, GetContext]),
                fullWindow = (case fw of None \<Rightarrow> True | Some b \<Rightarrow> b),
                pathStarted = False, width = Some 0, height = Some 0\<rparr>"
    have mk: "Canvas_proto True win ce fw (Some False) = Inr ?s0"
      using nn by (cases ce) (simp_all add: Canvas_proto_def)
    have auto_init: "autoInit \<noteq> Some False \<longrightarrow>
        Canvas_proto True win ce fw autoInit = Inr (init_proto ?s0)"
    proof (cases autoInit)
      case None
      then show ?thesis using nn by (cases ce) (simp_all add: Canvas_proto_def)
    next
      case (Some ai)
      then show ?thesis using nn by (cases ce; cases ai) (simp_all add: Canvas_proto_def)
    qed
    have "window ?s0 = win"
         "canvas ?s0 = (case ce of Given e \<Rightarrow> e | _ \<Rightarrow> createElement)"
         "trace ?s0 = (case ce of Given e \<Rightarrow> [GetContext]
                       | _ \<Rightarrow> [CreateElement, AppendChild, GetContext])"
      by simp_all
    with mk auto_init
    show "\<exists>s0. Canvas_proto True win ce fw (Some False) = Inr s0
          \<and> window s0 = win
          \<and> canvas s0 = (case ce of Given e \<Rightarrow> e | _ \<Rightarrow> createElement)
          \<and> trace s0 =
              (case ce of Given e \<Rightarrow> [GetContext]
               | _ \<Rightarrow> [CreateElement, AppendChild, GetContext])
          \<and> (autoInit \<noteq> Some False \<longrightarrow>
                Canvas_proto True win ce fw autoInit = Inr (init_proto s0))"
      by blast
  qed
  have e: "fullWindow s \<longrightarrow>
       trace (init_class s) =
         trace s @ [SetWidth (px (innerWidth (window s))),
                    SetHeight (px (innerHeight (window s))), AddResizeListener]
       \<and> trace (init_proto s) =
         trace s @ [SetDisplay ''block'', SetWidth (px (innerWidth (window s))),
                    SetHeight (px (innerHeight (window s))), AddResizeListener]"
    by (simp add: init_class_fullWindow init_proto_fullWindow)
  have f: "\<not> fullWindow s \<longrightarrow>
       init_class s = s
       \<and> trace (init_proto s) = trace s
       \<and> window (init_proto s) = window s
       \<and> canvas (init_proto s) = canvas s"
    by (simp add: init_class_def init_proto_def)
  from a b c d e f show ?thesis by blast
qed

text \<open>
  Both constructors with the surface left out: the class with no further argument, the
  function of \<^verbatim>\<open>src/unnamed/part_000\<close> with \<open>autoInit = false\<close>; and \<open>init()\<close> of the
  class on the object just made.
\<close>

theorem constructor_effects_witness:
  "trace (Canvas_class win0 Undefined None) = [CreateElement, AppendChild, GetContext]
   \<and> window (Canvas_class win0 Undefined None) = win0
   \<and> canvas (Canvas_class win0 Undefined None) = createElement
   \<and> fullWindow (Canvas_class win0 Undefined None)
   \<and> trace (init_class (Canvas_class win0 Undefined None)) =
       [CreateElement, AppendChild, GetContext, SetWidth 800, SetHeight 600,
        AddResizeListener]
   \<and> (Undefined :: element arg) \<noteq> Null
   \<and> Canvas_proto True win0 Undefined None (Some False) =
       Inr \<lparr>window = win0, canvas = createElement,
            trace = [CreateElement, AppendChild, GetContext],
            fullWindow = True, pathStarted = False, width = Some 0, height = Some 0\<rparr>
   \<and> (None :: bool option) \<noteq> Some False
   \<and> Canvas_proto True win0 Undefined None None =
       Inr (init_proto
             \<lparr>window = win0, canvas = createElement,
              trace = [CreateElement, AppendChild, GetContext],
              fullWindow = True, pathStarted = False, width = Some 0, height = Some 0\<rparr>)
   \<and> \<not> fullWindow (Canvas_class win0 Undefined (Some False))
   \<and> init_class (Canvas_class win0 Undefined (Some False)) =
       Canvas_class win0 Undefined (Some False)"
  using constructor_effects
          [of win0 Undefined None None "Canvas_class win0 Undefined None"]
        constructor_effects
          [of win0 Undefined None None "Canvas_class win0 Undefined (Some False)"]
  by (simp add: Canvas_class_def Canvas_proto_def win0_def px_pixels_of)

text \<open>
  C7 as stated fails on \<^verbatim>\<open>src/unnamed/part_000\<close>: \<open>new Canvas()\<close> in a viewport of 800 by
  600 returns an object whose surface has been displayed as a block and resized to the
  viewport and whose resize handler is registered on the window.
\<close>

theorem Canvas_proto_autoInit_counterexample:
  "Canvas_proto True win0 Undefined None None =
     Inr \<lparr>window = \<lparr>innerWidth = pixels_of 800, innerHeight = pixels_of 600,
                     resizeListener = True\<rparr>,
          canvas = \<lparr>el_width = 800, el_height = 600, el_display = ''block'',
                    ctx_fillStyle = ''#000000'', ctx_strokeStyle = ''#000000''\<rparr>,
          trace = [CreateElement, AppendChild, GetContext, SetDisplay ''block'',
                   SetWidth 800, SetHeight 600, AddResizeListener],
          fullWindow = True, pathStarted = False, width = Some 800, height = Some 600\<rparr>
   \<and> \<not> (trace (projr (Canvas_proto True win0 Undefined None None)) =
          [CreateElement, AppendChild, GetContext]
        \<and> window (projr (Canvas_proto True win0 Undefined None None)) = win0
        \<and> canvas (projr (Canvas_proto True win0 Undefined None None)) = createElement)"
  by (simp add: Canvas_proto_def init_proto_def setSize_proto_def issue_def win0_def
        createElement_def px_pixels_of set_dimension_def to_unsigned_long_def)

text \<open>
  C10. Given \<open>null\<close> for the surface, the class of \<^verbatim>\<open>src/lib/index.js\<close> does what it
  does when the surface is left out: it creates a surface, appends it to the body and
  then obtains the context. The function of \<^verbatim>\<open>src/unnamed/part_000\<close> does so only
  when the surface is left out; given \<open>null\<close> it throws a \<open>TypeError\<close> and no object is
  made, whatever the other arguments are.
\<close>

theorem Canvas_null_surface:
  "Canvas_class win Null fw = Canvas_class win Undefined fw
   \<and> canvas (Canvas_class win Null fw) = createElement
   \<and> trace (Canvas_class win Null fw) = [CreateElement, AppendChild, GetContext]
   \<and> (\<exists>s0. Canvas_proto True win Undefined fw autoInit = Inr s0
          \<and> take 3 (trace s0) = [CreateElement, AppendChild, GetContext])
   \<and> Canvas_proto isNew win Null fw autoInit = Inl TypeError"
proof -
  have a: "Canvas_class win Null fw = Canvas_class win Undefined fw"
          "canvas (Canvas_class win Null fw) = createElement"
          "trace (Canvas_class win Null fw) = [CreateElement, AppendChild, GetContext]"
    by (simp_all add: Canvas_class_def)
  have b: "\<exists>s0. Canvas_proto True win Undefined fw autoInit = Inr s0
          \<and> take 3 (trace s0) = [CreateElement, AppendChild, GetContext]"
    by (simp add: Canvas_proto_def init_proto_def setSize_proto_def issue_def Let_def)
  have c: "Canvas_proto isNew win Null fw autoInit = Inl TypeError"
    by (simp add: Canvas_proto_def)
  from a b c show ?thesis by blast
qed

end
